theory Spec2Isabelle
  imports Main
begin

section \<open>Rectangle\<close>

text \<open>
  \<^verbatim>\<open>function Rectangle(width, height) {
    return { width, height, getArea() { return this.width * this.height; } };
  }\<close>
  The object literal is a record of the two fields; \<open>getArea\<close> is the method, reading its
  receiver. The number type is left open: the product is whatever \<open>*\<close> is on it.
\<close>

record 'a rectangle =
  width :: 'a
  height :: 'a

definition Rectangle :: "'a \<Rightarrow> 'a \<Rightarrow> 'a rectangle" where
  "Rectangle w h = \<lparr>width = w, height = h\<rparr>"

definition getArea :: "('a::times) rectangle \<Rightarrow> 'a" where
  "getArea this = width this * height this"


section \<open>The selector builder\<close>

text \<open>
  \<open>throw new Error(message)\<close>: the one exception class the module raises, told apart by
  its message only.
\<close>

datatype error = Error string

text \<open>\<open>const ORDER = ['element', 'id', 'class', 'attribute', 'pseudoClass', 'pseudoElement']\<close>\<close>

definition ORDER :: "string list" where
  "ORDER = [''element'', ''id'', ''class'', ''attribute'', ''pseudoClass'', ''pseudoElement'']"

text \<open>
  \<open>Array.prototype.indexOf\<close>: the first position holding the searched value, \<open>-1\<close> when
  there is none. The searched value is a string or \<open>null\<close> (\<open>None\<close>), and \<open>null\<close> equals
  no string.
\<close>

fun indexOf_from :: "string list \<Rightarrow> string option \<Rightarrow> int \<Rightarrow> int" where
  "indexOf_from [] v i = - 1"
| "indexOf_from (x # xs) v i = (if v = Some x then i else indexOf_from xs v (i + 1))"

definition indexOf :: "string list \<Rightarrow> string option \<Rightarrow> int" where
  "indexOf xs v = indexOf_from xs v 0"

text \<open>
  The fields every one of the six constructor functions (\<open>Element\<close>, \<open>Id\<close>, \<open>Class\<close>,
  \<open>Attr\<close>, \<open>PseudoClass\<close>, \<open>PseudoElement\<close>) sets on \<open>this\<close>.
\<close>

record builder =
  selectors :: string
  currentSelector :: string
  prevSelector :: "string option"
  elementCount :: int
  idCount :: int
  pseudoElemCount :: int

text \<open>
  A method call mutates \<open>this\<close> and then either returns \<open>this\<close> or throws. The model
  returns the outcome (\<open>Inl\<close> the thrown error, \<open>Inr ()\<close> a normal return) together with
  the object as the call leaves it, so that assignments made before a \<open>throw\<close> stay
  visible to the caller who catches it.
\<close>

type_synonym outcome = "(error + unit) \<times> builder"

text \<open>
  The six constructor functions install the same six method bodies, character for
  character; each body is modelled once, statement by statement.
\<close>

definition element :: "string \<Rightarrow> builder \<Rightarrow> outcome" where
  "element val this =
    (if elementCount this > 0 then
       (Inl (Error ''Element, id and pseudo-element should not occur more then one time inside the selector''), this)
     else
       let this1 = this\<lparr>prevSelector := Some (currentSelector this)\<rparr>;
           this2 = this1\<lparr>currentSelector := ''element''\<rparr>
       in if indexOf ORDER (prevSelector this2) > indexOf ORDER (Some (currentSelector this2)) then
            (Inl (Error ''Selector parts should be arranged in the following order: element, id, class, attribute, pseudo-class, pseudo-element''), this2)
          else
            (Inr (), this2\<lparr>selectors := selectors this2 @ val\<rparr>))"

definition builder_id :: "string \<Rightarrow> builder \<Rightarrow> outcome" where
  "builder_id val this =
    (if idCount this > 0 then
       (Inl (Error ''Element, id and pseudo-element should not occur more then one time inside the selector''), this)
     else
       let this1 = this\<lparr>prevSelector := Some (currentSelector this)\<rparr>;
           this2 = this1\<lparr>currentSelector := ''id''\<rparr>
       in if indexOf ORDER (prevSelector this2) > indexOf ORDER (Some (currentSelector this2)) then
            (Inl (Error ''Selector parts should be arranged in the following order: element, id, class, attribute, pseudo-class, pseudo-element''), this2)
          else
            let this3 = this2\<lparr>selectors := selectors this2 @ ''#'' @ val\<rparr>;
                this4 = this3\<lparr>idCount := idCount this3 + 1\<rparr>
            in (Inr (), this4))"

definition builder_class :: "string \<Rightarrow> builder \<Rightarrow> outcome" where
  "builder_class val this =
    (let this1 = this\<lparr>prevSelector := Some (currentSelector this)\<rparr>;
         this2 = this1\<lparr>currentSelector := ''class''\<rparr>
     in if indexOf ORDER (prevSelector this2) > indexOf ORDER (Some (currentSelector this2)) then
          (Inl (Error ''Selector parts should be arranged in the following order: element, id, class, attribute, pseudo-class, pseudo-element''), this2)
        else
          (Inr (), this2\<lparr>selectors := selectors this2 @ ''.'' @ val\<rparr>))"

definition attr :: "string \<Rightarrow> builder \<Rightarrow> outcome" where
  "attr val this =
    (let this1 = this\<lparr>prevSelector := Some (currentSelector this)\<rparr>;
         this2 = this1\<lparr>currentSelector := ''attribute''\<rparr>
     in if indexOf ORDER (prevSelector this2) > indexOf ORDER (Some (currentSelector this2)) then
          (Inl (Error ''Selector parts should be arranged in the following order: element, id, class, attribute, pseudo-class, pseudo-element''), this2)
        else
          (Inr (), this2\<lparr>selectors := selectors this2 @ ''['' @ val @ '']''\<rparr>))"

definition pseudoClass :: "string \<Rightarrow> builder \<Rightarrow> outcome" where
  "pseudoClass val this =
    (let this1 = this\<lparr>prevSelector := Some (currentSelector this)\<rparr>;
         this2 = this1\<lparr>currentSelector := ''pseudoClass''\<rparr>
     in if indexOf ORDER (prevSelector this2) > indexOf ORDER (Some (currentSelector this2)) then
          (Inl (Error ''Selector parts should be arranged in the following order: element, id, class, attribute, pseudo-class, pseudo-element''), this2)
        else
          (Inr (), this2\<lparr>selectors := selectors this2 @ '':'' @ val\<rparr>))"

definition pseudoElement :: "string \<Rightarrow> builder \<Rightarrow> outcome" where
  "pseudoElement val this =
    (let this1 = this\<lparr>prevSelector := Some (currentSelector this)\<rparr>;
         this2 = this1\<lparr>currentSelector := ''pseudoElement''\<rparr>
     in if indexOf ORDER (prevSelector this2) > indexOf ORDER (Some (currentSelector this2)) then
          (Inl (Error ''Selector parts should be arranged in the following order: element, id, class, attribute, pseudo-class, pseudo-element''), this2)
        else if pseudoElemCount this2 > 0 then
          (Inl (Error ''Element, id and pseudo-element should not occur more then one time inside the selector''), this2)
        else
          let this3 = this2\<lparr>pseudoElemCount := pseudoElemCount this2 + 1\<rparr>;
              this4 = this3\<lparr>selectors := selectors this3 @ ''::'' @ val\<rparr>
          in (Inr (), this4))"

definition stringify :: "builder \<Rightarrow> string" where
  "stringify this = selectors this"

text \<open>The constructor functions: the six field initialisations of each.\<close>

definition Element :: "string \<Rightarrow> builder" where
  "Element name = \<lparr>selectors = name, currentSelector = ''element'', prevSelector = None,
     elementCount = 1, idCount = 0, pseudoElemCount = 0\<rparr>"

definition Id_builder :: "string \<Rightarrow> builder" where
  "Id_builder name = \<lparr>selectors = ''#'' @ name, currentSelector = ''id'', prevSelector = None,
     elementCount = 0, idCount = 1, pseudoElemCount = 0\<rparr>"

definition Class :: "string \<Rightarrow> builder" where
  "Class name = \<lparr>selectors = ''.'' @ name, currentSelector = ''class'', prevSelector = None,
     elementCount = 0, idCount = 0, pseudoElemCount = 0\<rparr>"

definition Attr :: "string \<Rightarrow> builder" where
  "Attr name = \<lparr>selectors = ''['' @ name @ '']'', currentSelector = ''attribute'', prevSelector = None,
     elementCount = 0, idCount = 0, pseudoElemCount = 0\<rparr>"

definition PseudoClass :: "string \<Rightarrow> builder" where
  "PseudoClass name = \<lparr>selectors = '':'' @ name, currentSelector = ''pseudoClass'', prevSelector = None,
     elementCount = 0, idCount = 0, pseudoElemCount = 0\<rparr>"

definition PseudoElement :: "string \<Rightarrow> builder" where
  "PseudoElement name = \<lparr>selectors = ''::'' @ name, currentSelector = ''pseudoElement'', prevSelector = None,
     elementCount = 0, idCount = 0, pseudoElemCount = 1\<rparr>"


section \<open>Combine and the facade\<close>

text \<open>
  \<open>class Combine\<close> has the one field \<open>string\<close>, computed in the constructor from the
  \<open>stringify()\<close> of its two operands. An operand is an object of this module with a
  \<open>stringify\<close> method: a builder or another \<open>Combine\<close>.
\<close>

record Combine =
  string_field :: string

datatype selector = Builder builder | Combined Combine

definition Combine_stringify :: "Combine \<Rightarrow> string" where
  "Combine_stringify this = string_field this"

fun selector_stringify :: "selector \<Rightarrow> string" where
  "selector_stringify (Builder b) = stringify b"
| "selector_stringify (Combined c) = Combine_stringify c"

definition new_Combine :: "selector \<Rightarrow> string \<Rightarrow> selector \<Rightarrow> Combine" where
  "new_Combine selector1 combinator selector2 =
     \<lparr>string_field = selector_stringify selector1 @ '' '' @ combinator @ '' '' @ selector_stringify selector2\<rparr>"

text \<open>The members of \<open>cssSelectorBuilder\<close>.\<close>

definition cssSelectorBuilder_element :: "string \<Rightarrow> builder" where
  "cssSelectorBuilder_element val = Element val"

definition cssSelectorBuilder_id :: "string \<Rightarrow> builder" where
  "cssSelectorBuilder_id val = Id_builder val"

definition cssSelectorBuilder_class :: "string \<Rightarrow> builder" where
  "cssSelectorBuilder_class val = Class val"

definition cssSelectorBuilder_attr :: "string \<Rightarrow> builder" where
  "cssSelectorBuilder_attr val = Attr val"

definition cssSelectorBuilder_pseudoClass :: "string \<Rightarrow> builder" where
  "cssSelectorBuilder_pseudoClass val = PseudoClass val"

definition cssSelectorBuilder_pseudoElement :: "string \<Rightarrow> builder" where
  "cssSelectorBuilder_pseudoElement val = PseudoElement val"

definition cssSelectorBuilder_combine :: "selector \<Rightarrow> string \<Rightarrow> selector \<Rightarrow> Combine" where
  "cssSelectorBuilder_combine selector1 combinator selector2 = new_Combine selector1 combinator selector2"


section \<open>Calls by name, chains and call sequences\<close>

text \<open>
  The six method names a caller can invoke on a builder, and the same six names on the
  facade \<open>cssSelectorBuilder\<close>.
\<close>

datatype operation = M_element | M_id | M_class | M_attr | M_pseudoClass | M_pseudoElement

fun invoke :: "operation \<Rightarrow> string \<Rightarrow> builder \<Rightarrow> outcome" where
  "invoke M_element = element"
| "invoke M_id = builder_id"
| "invoke M_class = builder_class"
| "invoke M_attr = attr"
| "invoke M_pseudoClass = pseudoClass"
| "invoke M_pseudoElement = pseudoElement"

fun seed :: "operation \<Rightarrow> string \<Rightarrow> builder" where
  "seed M_element = cssSelectorBuilder_element"
| "seed M_id = cssSelectorBuilder_id"
| "seed M_class = cssSelectorBuilder_class"
| "seed M_attr = cssSelectorBuilder_attr"
| "seed M_pseudoClass = cssSelectorBuilder_pseudoClass"
| "seed M_pseudoElement = cssSelectorBuilder_pseudoElement"

text \<open>The entry of \<open>ORDER\<close> that each method (and each constructor) writes into \<open>currentSelector\<close>.\<close>

fun kind_name :: "operation \<Rightarrow> string" where
  "kind_name M_element = ''element''"
| "kind_name M_id = ''id''"
| "kind_name M_class = ''class''"
| "kind_name M_attr = ''attribute''"
| "kind_name M_pseudoClass = ''pseudoClass''"
| "kind_name M_pseudoElement = ''pseudoElement''"

definition rank :: "operation \<Rightarrow> int" where
  "rank m = indexOf ORDER (Some (kind_name m))"

text \<open>
  A chain \<open>b.m1(v1).m2(v2)...\<close>: each call runs on the object the previous one returned,
  and the first \<open>throw\<close> ends the chain.
\<close>

fun chain :: "(operation \<times> string) list \<Rightarrow> builder \<Rightarrow> outcome" where
  "chain [] b = (Inr (), b)"
| "chain ((m, v) # cs) b =
     (case invoke m v b of
        (Inl e, b') \<Rightarrow> (Inl e, b')
      | (Inr u, b') \<Rightarrow> chain cs b')"

text \<open>
  A caller that wraps every call in \<open>try { ... } catch (e) { }\<close> and keeps using the same
  object: the object after the whole sequence.
\<close>

fun attempt_all :: "(operation \<times> string) list \<Rightarrow> builder \<Rightarrow> builder" where
  "attempt_all [] b = b"
| "attempt_all ((m, v) # cs) b = attempt_all cs (snd (invoke m v b))"

text \<open>
  The specification's table of renderings (its section 6): value verbatim for element,
  \<open>#value\<close>, \<open>.value\<close>, \<open>[value]\<close>, \<open>:value\<close>, \<open>::value\<close>.
\<close>

fun canonical_rendering :: "operation \<Rightarrow> string \<Rightarrow> string" where
  "canonical_rendering M_element v = v"
| "canonical_rendering M_id v = ''#'' @ v"
| "canonical_rendering M_class v = ''.'' @ v"
| "canonical_rendering M_attr v = ''['' @ v @ '']''"
| "canonical_rendering M_pseudoClass v = '':'' @ v"
| "canonical_rendering M_pseudoElement v = ''::'' @ v"

text \<open>
  The specification's valid orderings: ranks never decrease along the sequence, and
  element, id and pseudoElement each occur at most once in it (seed included).
\<close>

definition canonical_order :: "operation list \<Rightarrow> bool" where
  "canonical_order ks =
     (sorted (map rank ks) \<and> count_list ks M_element \<le> 1 \<and> count_list ks M_id \<le> 1
      \<and> count_list ks M_pseudoElement \<le> 1)"

text \<open>
  What a builder's fields record about the fragments \<open>ks\<close> appended to it so far, when no
  call on it has thrown: the last kind, and in each counter the number of fragments of
  its kind among \<open>ks\<close>.
\<close>

definition records :: "operation list \<Rightarrow> builder \<Rightarrow> bool" where
  "records ks b =
     (ks \<noteq> [] \<and> currentSelector b = kind_name (last ks)
      \<and> elementCount b = int (count_list ks M_element)
      \<and> idCount b = int (count_list ks M_id)
      \<and> pseudoElemCount b = int (count_list ks M_pseudoElement))"

text \<open>
  The two values the methods throw, under the names the specification gives them.
\<close>

definition DuplicateFragmentError :: error where
  "DuplicateFragmentError =
     Error ''Element, id and pseudo-element should not occur more then one time inside the selector''"

definition SequenceOrderError :: error where
  "SequenceOrderError =
     Error ''Selector parts should be arranged in the following order: element, id, class, attribute, pseudo-class, pseudo-element''"

text \<open>
  The two tests of the method bodies, read on the object as a call finds it: the
  occurrence test of the three capped methods (\<open>this.elementCount > 0\<close>, \<open>this.idCount > 0\<close>,
  \<open>this.pseudoElemCount > 0\<close>), and the ordering test
  \<open>ORDER.indexOf(this.prevSelector) > ORDER.indexOf(this.currentSelector)\<close>, in which
  \<open>prevSelector\<close> is the \<open>currentSelector\<close> the call found and \<open>currentSelector\<close> the name
  the method has just written.
\<close>

definition duplicate :: "operation \<Rightarrow> builder \<Rightarrow> bool" where
  "duplicate m b =
     (m = M_element \<and> 0 < elementCount b \<or> m = M_id \<and> 0 < idCount b
      \<or> m = M_pseudoElement \<and> 0 < pseudoElemCount b)"

definition out_of_order :: "operation \<Rightarrow> builder \<Rightarrow> bool" where
  "out_of_order m b = (indexOf ORDER (Some (currentSelector b)) > indexOf ORDER (Some (kind_name m)))"

text \<open>
  The two assignments every method body makes ahead of its ordering test:
  \<open>this.prevSelector = this.currentSelector; this.currentSelector = '...'\<close>.
\<close>

definition entered :: "operation \<Rightarrow> builder \<Rightarrow> builder" where
  "entered m b = b\<lparr>prevSelector := Some (currentSelector b), currentSelector := kind_name m\<rparr>"

text \<open>
  Nested \<open>combine\<close> expressions: a tree whose leaves are builders and whose nodes carry
  the combinator token, evaluated by \<open>cssSelectorBuilder.combine\<close> bottom-up, and the
  rendering the specification gives for it.
\<close>

datatype combination = Plain builder | Join combination string combination

fun build :: "combination \<Rightarrow> selector" where
  "build (Plain b) = Builder b"
| "build (Join l t r) = Combined (cssSelectorBuilder_combine (build l) t (build r))"

fun rendered :: "combination \<Rightarrow> string" where
  "rendered (Plain b) = stringify b"
| "rendered (Join l t r) = rendered l @ '' '' @ t @ '' '' @ rendered r"


section \<open>The order table\<close>

lemmas method_defs = element_def builder_id_def builder_class_def attr_def
  pseudoClass_def pseudoElement_def

lemmas facade_defs = cssSelectorBuilder_element_def cssSelectorBuilder_id_def
  cssSelectorBuilder_class_def cssSelectorBuilder_attr_def cssSelectorBuilder_pseudoClass_def
  cssSelectorBuilder_pseudoElement_def Element_def Id_builder_def Class_def Attr_def
  PseudoClass_def PseudoElement_def

lemma rank_simps:
  "rank M_element = 0" "rank M_id = 1" "rank M_class = 2" "rank M_attr = 3"
  "rank M_pseudoClass = 4" "rank M_pseudoElement = 5"
  by (simp_all add: rank_def indexOf_def ORDER_def)

lemma indexOf_kind_name: "indexOf ORDER (Some (kind_name m)) = rank m"
  by (simp add: rank_def)

text \<open>No string sits further right in \<open>ORDER\<close> than \<open>'pseudoElement'\<close>; an absent one gives \<open>-1\<close>.\<close>

lemma indexOf_ORDER_le: "indexOf ORDER (Some s) \<le> 5"
  by (simp add: indexOf_def ORDER_def)

lemma rank_inj: "rank a = rank b \<Longrightarrow> a = b"
  by (cases a; cases b) (simp_all add: rank_simps)

lemma rank_bounds: "0 \<le> rank m \<and> rank m \<le> 5"
  by (cases m) (simp_all add: rank_simps)

lemma out_of_order_rank:
  "currentSelector b = kind_name l \<Longrightarrow> out_of_order m b = (rank m < rank l)"
  by (simp add: out_of_order_def rank_def)

text \<open>
  The ordering test of \<open>pseudoElement\<close> stands ahead of its occurrence test in the source,
  but it can never be true.
\<close>

lemma pseudoElement_never_out_of_order: "\<not> out_of_order M_pseudoElement b"
  using indexOf_ORDER_le [of "currentSelector b"]
  by (simp add: out_of_order_def indexOf_kind_name [of M_pseudoElement, simplified] rank_simps)

lemma error_names_differ: "DuplicateFragmentError \<noteq> SequenceOrderError"
  by (simp add: DuplicateFragmentError_def SequenceOrderError_def)


section \<open>Each method body as its outcomes\<close>

lemma element_cases:
  "element v b =
     (if 0 < elementCount b then (Inl DuplicateFragmentError, b)
      else if out_of_order M_element b then (Inl SequenceOrderError, entered M_element b)
      else (Inr (), (entered M_element b)\<lparr>selectors := selectors b @ v\<rparr>))"
  by (simp add: element_def Let_def DuplicateFragmentError_def SequenceOrderError_def
      out_of_order_def entered_def)

lemma builder_id_cases:
  "builder_id v b =
     (if 0 < idCount b then (Inl DuplicateFragmentError, b)
      else if out_of_order M_id b then (Inl SequenceOrderError, entered M_id b)
      else (Inr (), (entered M_id b)\<lparr>selectors := selectors b @ ''#'' @ v, idCount := idCount b + 1\<rparr>))"
  by (simp add: builder_id_def Let_def DuplicateFragmentError_def SequenceOrderError_def
      out_of_order_def entered_def)

lemma builder_class_cases:
  "builder_class v b =
     (if out_of_order M_class b then (Inl SequenceOrderError, entered M_class b)
      else (Inr (), (entered M_class b)\<lparr>selectors := selectors b @ ''.'' @ v\<rparr>))"
  by (simp add: builder_class_def Let_def SequenceOrderError_def out_of_order_def entered_def)

lemma attr_cases:
  "attr v b =
     (if out_of_order M_attr b then (Inl SequenceOrderError, entered M_attr b)
      else (Inr (), (entered M_attr b)\<lparr>selectors := selectors b @ ''['' @ v @ '']''\<rparr>))"
  by (simp add: attr_def Let_def SequenceOrderError_def out_of_order_def entered_def)

lemma pseudoClass_cases:
  "pseudoClass v b =
     (if out_of_order M_pseudoClass b then (Inl SequenceOrderError, entered M_pseudoClass b)
      else (Inr (), (entered M_pseudoClass b)\<lparr>selectors := selectors b @ '':'' @ v\<rparr>))"
  by (simp add: pseudoClass_def Let_def SequenceOrderError_def out_of_order_def entered_def)

lemma pseudoElement_cases:
  "pseudoElement v b =
     (if out_of_order M_pseudoElement b then (Inl SequenceOrderError, entered M_pseudoElement b)
      else if 0 < pseudoElemCount b then (Inl DuplicateFragmentError, entered M_pseudoElement b)
      else (Inr (), (entered M_pseudoElement b)
              \<lparr>pseudoElemCount := pseudoElemCount b + 1, selectors := selectors b @ ''::'' @ v\<rparr>))"
  by (simp add: pseudoElement_def Let_def DuplicateFragmentError_def SequenceOrderError_def
      out_of_order_def entered_def)

lemmas invoke_cases = element_cases builder_id_cases builder_class_cases attr_cases
  pseudoClass_cases pseudoElement_cases

lemmas run_simps = facade_defs invoke_cases entered_def out_of_order_def indexOf_def ORDER_def


section \<open>One call\<close>

lemma invoke_duplicate:
  assumes "duplicate m b"
  shows "fst (invoke m v b) = Inl DuplicateFragmentError"
  using assms
  by (cases m) (simp_all add: duplicate_def invoke_cases pseudoElement_never_out_of_order)

lemma invoke_out_of_order:
  assumes "out_of_order m b" and "\<not> duplicate m b"
  shows "invoke m v b = (Inl SequenceOrderError, entered m b)"
  using assms
  by (cases m) (simp_all add: duplicate_def invoke_cases)

lemma invoke_returns:
  assumes "\<not> duplicate m b" and "\<not> out_of_order m b"
  shows "\<exists>b'. invoke m v b = (Inr (), b')"
  using assms
  by (cases m) (simp_all add: duplicate_def invoke_cases)

lemma invoke_returned_pre:
  assumes "invoke m v b = (Inr (), b')"
  shows "\<not> duplicate m b" and "\<not> out_of_order m b"
  using assms
  by (cases m; simp add: duplicate_def invoke_cases split: if_splits)+

lemma invoke_returned_fields:
  assumes "invoke m v b = (Inr (), b')"
  shows "selectors b' = selectors b @ canonical_rendering m v"
    and "currentSelector b' = kind_name m"
    and "elementCount b' = elementCount b"
    and "idCount b' = idCount b + (if m = M_id then 1 else 0)"
    and "pseudoElemCount b' = pseudoElemCount b + (if m = M_pseudoElement then 1 else 0)"
  using assms
  by (cases m; auto simp add: invoke_cases entered_def split: if_splits)+

text \<open>The two \<open>throw\<close> statements are the only ways a call fails.\<close>

lemma invoke_error_cases:
  assumes "fst (invoke m v b) = Inl e"
  shows "duplicate m b \<and> e = DuplicateFragmentError
     \<or> out_of_order m b \<and> \<not> duplicate m b \<and> e = SequenceOrderError"
  using assms
  by (cases m)
     (auto simp add: duplicate_def invoke_cases pseudoElement_never_out_of_order split: if_splits)

text \<open>A call that throws has appended nothing and counted nothing.\<close>

lemma failed_call_keeps_text_and_counts:
  assumes "fst (invoke m v b) = Inl e"
  shows "selectors (snd (invoke m v b)) = selectors b
     \<and> elementCount (snd (invoke m v b)) = elementCount b
     \<and> idCount (snd (invoke m v b)) = idCount b
     \<and> pseudoElemCount (snd (invoke m v b)) = pseudoElemCount b"
  using assms
  by (cases m) (auto simp add: invoke_cases entered_def split: if_splits)


section \<open>Chains in which every call returns\<close>

lemma records_seed: "records [k] (seed k v)"
  by (cases k) (simp_all add: records_def facade_defs)

lemma selectors_seed: "selectors (seed k v) = canonical_rendering k v"
  by (cases k) (simp_all add: facade_defs)

lemma count_list_snoc: "count_list (ks @ [m]) k = count_list ks k + (if m = k then 1 else 0)"
  by (induction ks) simp_all

lemma count_list_pos_iff: "0 < count_list ks k \<longleftrightarrow> k \<in> set ks"
  by (induction ks) auto

lemma records_duplicate:
  assumes "records ks b"
  shows "duplicate m b \<longleftrightarrow> (m = M_element \<or> m = M_id \<or> m = M_pseudoElement) \<and> m \<in> set ks"
  using assms count_list_pos_iff [of ks m]
  by (auto simp add: records_def duplicate_def)

lemma records_out_of_order:
  assumes "records ks b"
  shows "out_of_order m b \<longleftrightarrow> rank m < rank (last ks)"
  using assms by (simp add: records_def out_of_order_rank)

text \<open>
  A returned call keeps the fields in step with the fragments. \<open>element\<close> never bumps
  \<open>elementCount\<close>, but in a chain without a throw it never returns either: it would need
  \<open>'element'\<close> as the last kind, and then the seed was an element and the counter is 1.
\<close>

lemma records_step:
  assumes r: "records ks b" and i: "invoke m v b = (Inr (), b')"
  shows "records (ks @ [m]) b'"
proof -
  from r have ne: "ks \<noteq> []" by (simp add: records_def)
  note pre = invoke_returned_pre [OF i]
  note post = invoke_returned_fields [OF i]
  have not_element: "m \<noteq> M_element"
  proof
    assume m: "m = M_element"
    with pre(2) r have "rank (last ks) \<le> 0"
      by (simp add: records_out_of_order rank_simps)
    with rank_bounds [of "last ks"] have "rank (last ks) = rank M_element"
      by (simp add: rank_simps)
    then have "last ks = M_element" by (rule rank_inj)
    with ne have "M_element \<in> set ks" using last_in_set by metis
    with pre(1) r m show False by (simp add: records_duplicate)
  qed
  from r post not_element ne show ?thesis
    by (simp add: records_def count_list_snoc)
qed

lemma chain_returned:
  assumes "records ks b" and "chain cs b = (Inr (), b')"
  shows "records (ks @ map fst cs) b'
     \<and> selectors b' = selectors b @ concat (map (\<lambda>(k, v). canonical_rendering k v) cs)"
  using assms
proof (induction cs arbitrary: ks b)
  case Nil
  then show ?case by simp
next
  case (Cons c cs)
  obtain m v where c: "c = (m, v)" by (cases c)
  obtain r b1 where i: "invoke m v b = (r, b1)" by (cases "invoke m v b")
  with Cons.prems(2) c have r: "r = Inr ()" and rest: "chain cs b1 = (Inr (), b')"
    by (auto split: sum.splits)
  from Cons.prems(1) i r have "records (ks @ [m]) b1" by (simp add: records_step)
  from Cons.IH [OF this rest] invoke_returned_fields(1) [of m v b b1] i r c
  show ?case by simp
qed

lemma canonical_order_next:
  assumes "canonical_order (ks @ m # rest)" and "ks \<noteq> []"
  shows "\<not> rank m < rank (last ks)"
    and "m = M_element \<or> m = M_id \<or> m = M_pseudoElement \<Longrightarrow> m \<notin> set ks"
proof -
  from assms(2) have "last ks \<in> set ks" by simp
  with assms(1) have "rank (last ks) \<le> rank m"
    by (simp add: canonical_order_def sorted_append)
  then show "\<not> rank m < rank (last ks)" by simp
  assume "m = M_element \<or> m = M_id \<or> m = M_pseudoElement"
  with assms(1) have "count_list ks m = 0"
    by (auto simp add: canonical_order_def)
  then show "m \<notin> set ks" using count_list_pos_iff [of ks m] by simp
qed

lemma chain_returns:
  assumes "records ks b" and "canonical_order (ks @ map fst cs)"
  shows "\<exists>b'. chain cs b = (Inr (), b')"
  using assms
proof (induction cs arbitrary: ks b)
  case Nil
  then show ?case by simp
next
  case (Cons c cs)
  obtain m v where c: "c = (m, v)" by (cases c)
  from Cons.prems(1) have ne: "ks \<noteq> []" by (simp add: records_def)
  from Cons.prems(2) c have co: "canonical_order (ks @ m # map fst cs)" by simp
  from canonical_order_next [OF co ne] Cons.prems(1)
  have "\<not> duplicate m b" and "\<not> out_of_order m b"
    by (auto simp add: records_duplicate records_out_of_order)
  then have "\<exists>b1. invoke m v b = (Inr (), b1)" by (rule invoke_returns)
  then obtain b1 where i: "invoke m v b = (Inr (), b1)" ..
  from Cons.prems(1) i have r1: "records (ks @ [m]) b1" by (rule records_step)
  from co have "canonical_order ((ks @ [m]) @ map fst cs)" by simp
  from Cons.IH [OF r1 this] i c show ?case by simp
qed

text \<open>
  What does hold of the occurrence caps: on a builder on which no call has thrown, a
  capped kind that is already among its fragments is refused as a duplicate.
\<close>

lemma duplicate_after_returned_calls:
  assumes "chain cs (seed k0 v0) = (Inr (), b)"
    and "K = M_element \<or> K = M_id \<or> K = M_pseudoElement"
    and "K \<in> set (k0 # map fst cs)"
  shows "fst (invoke K v b) = Inl DuplicateFragmentError"
proof -
  have "records [k0] (seed k0 v0)" by (rule records_seed)
  from chain_returned [OF this assms(1)] have r: "records (k0 # map fst cs) b" by simp
  from assms(2,3) have "duplicate K b"
    by (simp add: records_duplicate [OF r])
  then show ?thesis by (rule invoke_duplicate)
qed

text \<open>
  On such a builder the duplicate also wins over the ordering: the error is the duplicate
  error wherever the last fragment ranks.
\<close>

lemma carried_kind_not_order_error:
  assumes "chain cs (seed k0 v0) = (Inr (), b)"
    and "K = M_element \<or> K = M_id \<or> K = M_pseudoElement"
    and "K \<in> set (k0 # map fst cs)"
  shows "fst (invoke K v b) \<noteq> Inl SequenceOrderError"
  using duplicate_after_returned_calls [OF assms, of v] error_names_differ by simp

lemma combine_stringify:
  "Combine_stringify (cssSelectorBuilder_combine l t r)
     = selector_stringify l @ '' '' @ t @ '' '' @ selector_stringify r"
  by (simp add: cssSelectorBuilder_combine_def new_Combine_def Combine_stringify_def)

lemma build_rendered: "selector_stringify (build e) = rendered e"
  by (induction e) (simp_all add: combine_stringify)


section \<open>Rectangle: fields and area\<close>

text \<open>
  C10. For every pair of numbers width and height, \<open>Rectangle(width, height)\<close> is an object
  whose \<open>width\<close> field is width, whose \<open>height\<close> field is height, and whose \<open>getArea()\<close>
  returns width * height.
\<close>

theorem Rectangle_fields_and_area:
  "width (Rectangle w h) = w \<and> height (Rectangle w h) = h \<and> getArea (Rectangle w h) = w * h"
  by (simp add: Rectangle_def getArea_def)

section \<open>Valid chains\<close>

text \<open>
  C1. Take an entry point and a sequence of append calls whose kinds, seed included, never
  go down in the canonical order element, id, class, attribute, pseudoClass, pseudoElement,
  with element, id and pseudoElement each at most once. Then every call returns, and
  \<open>stringify()\<close> gives the renderings of all the fragments, seed first, joined in call
  order.
\<close>

theorem valid_chain_stringify:
  assumes "canonical_order (k0 # map fst cs)"
  shows "fst (chain cs (seed k0 v0)) = Inr ()
     \<and> stringify (snd (chain cs (seed k0 v0)))
         = concat (map (\<lambda>(k, v). canonical_rendering k v) ((k0, v0) # cs))"
proof -
  have r: "records [k0] (seed k0 v0)" by (rule records_seed)
  from assms have "canonical_order ([k0] @ map fst cs)" by simp
  from chain_returns [OF r this] obtain b where c: "chain cs (seed k0 v0) = (Inr (), b)" ..
  from chain_returned [OF r c] selectors_seed [of k0 v0] c show ?thesis
    by (simp add: stringify_def)
qed

theorem valid_chain_stringify_witness:
  "canonical_order [M_element, M_id, M_class, M_class, M_attr, M_pseudoClass, M_pseudoElement]
   \<and> fst (chain [(M_id, ''main''), (M_class, ''container''), (M_class, ''draggable''),
              (M_attr, ''href''), (M_pseudoClass, ''focus''), (M_pseudoElement, ''after'')]
            (seed M_element ''div'')) = Inr ()
   \<and> stringify (snd (chain [(M_id, ''main''), (M_class, ''container''), (M_class, ''draggable''),
              (M_attr, ''href''), (M_pseudoClass, ''focus''), (M_pseudoElement, ''after'')]
            (seed M_element ''div''))) = ''div#main.container.draggable[href]:focus::after''"
proof -
  have h: "canonical_order (M_element # map fst [(M_id, ''main''), (M_class, ''container''),
      (M_class, ''draggable''), (M_attr, ''href''), (M_pseudoClass, ''focus''),
      (M_pseudoElement, ''after'')])"
    by (simp add: canonical_order_def rank_simps)
  from valid_chain_stringify [OF h, of "''div''"] h show ?thesis
    by (simp del: chain.simps)
qed


section \<open>Out-of-order calls\<close>

text \<open>
  C2, as amended. Take a builder reached from an entry point by append calls that all
  returned, and an append call of kind K that is not a capped kind the builder already
  carries. If the kind of the most recently appended fragment ranks strictly higher than
  K, the call throws the ordering error and appends nothing: the text and the three
  counters are as before.
\<close>

theorem out_of_order_after_returned_calls:
  assumes "chain cs (seed k0 v0) = (Inr (), b)"
    and "rank K < rank (last (k0 # map fst cs))"
    and "K = M_element \<or> K = M_id \<longrightarrow> K \<notin> set (k0 # map fst cs)"
  shows "fst (invoke K v b) = Inl SequenceOrderError
     \<and> stringify (snd (invoke K v b)) = stringify b
     \<and> elementCount (snd (invoke K v b)) = elementCount b
     \<and> idCount (snd (invoke K v b)) = idCount b
     \<and> pseudoElemCount (snd (invoke K v b)) = pseudoElemCount b"
proof -
  have "records [k0] (seed k0 v0)" by (rule records_seed)
  from chain_returned [OF this assms(1)] have r: "records (k0 # map fst cs) b" by simp
  from r assms(2) have ooo: "out_of_order K b"
    by (simp add: records_out_of_order)
  from assms(2) rank_bounds [of "last (k0 # map fst cs)"] have "K \<noteq> M_pseudoElement"
    by (auto simp add: rank_simps)
  with assms(3) have nd: "\<not> duplicate K b"
    unfolding records_duplicate [OF r] by blast
  from invoke_out_of_order [OF ooo nd, of v] show ?thesis
    by (simp add: stringify_def entered_def)
qed

text \<open>
  The amended statement at \<open>id('main').attr('href')\<close> followed by \<open>class('c')\<close>.
\<close>

theorem out_of_order_after_returned_calls_witness:
  "chain [(M_attr, ''href'')] (seed M_id ''main'')
     = (Inr (), \<lparr>selectors = ''#main[href]'', currentSelector = ''attribute'',
          prevSelector = Some ''id'', elementCount = 0, idCount = 1, pseudoElemCount = 0\<rparr>)
   \<and> rank M_class < rank (last (M_id # map fst [(M_attr, ''href'')]))
   \<and> fst (invoke M_class ''c'' \<lparr>selectors = ''#main[href]'', currentSelector = ''attribute'',
          prevSelector = Some ''id'', elementCount = 0, idCount = 1, pseudoElemCount = 0\<rparr>)
     = Inl SequenceOrderError
   \<and> stringify (snd (invoke M_class ''c'' \<lparr>selectors = ''#main[href]'', currentSelector = ''attribute'',
          prevSelector = Some ''id'', elementCount = 0, idCount = 1, pseudoElemCount = 0\<rparr>))
     = ''#main[href]''"
proof -
  have c: "chain [(M_attr, ''href'')] (seed M_id ''main'')
     = (Inr (), \<lparr>selectors = ''#main[href]'', currentSelector = ''attribute'',
          prevSelector = Some ''id'', elementCount = 0, idCount = 1, pseudoElemCount = 0\<rparr>)"
    by (simp add: run_simps)
  have r: "rank M_class < rank (last (M_id # map fst [(M_attr, ''href'')]))"
    by (simp add: rank_simps)
  have k: "M_class = M_element \<or> M_class = M_id \<longrightarrow> M_class \<notin> set (M_id # map fst [(M_attr, ''href'')])"
    by simp
  from out_of_order_after_returned_calls [OF c r k, of "''c''"] c r show ?thesis
    by (simp add: stringify_def)
qed

text \<open>
  C2 as first stated fails at \<open>element('a').class('c')\<close> followed by \<open>element('b')\<close>: the
  last fragment is a class, which outranks element, yet the call throws the duplicate
  error, not the ordering error.
\<close>

theorem duplicate_element_after_class_counterexample:
  "fst (chain [(M_class, ''c'')] (seed M_element ''a'')) = Inr ()
   \<and> rank M_element < rank M_class
   \<and> fst (invoke M_element ''b'' (snd (chain [(M_class, ''c'')] (seed M_element ''a''))))
       = Inl DuplicateFragmentError
   \<and> fst (invoke M_element ''b'' (snd (chain [(M_class, ''c'')] (seed M_element ''a''))))
       \<noteq> Inl SequenceOrderError"
  by (simp add: run_simps rank_simps error_names_differ)


section \<open>The occurrence caps\<close>

text \<open>
  C3. A second element on a builder that already carries one should throw the duplicate
  error. It does not at \<open>b = id('x')\<close> once the caller has caught the ordering error of
  \<open>b.element('a')\<close>: \<open>b.element('b')\<close> then returns and appends, the builder carries an
  element, and \<open>b.element('c')\<close> returns and appends again, giving \<open>#xbc\<close>.
\<close>

theorem element_repeated_after_caught_error:
  "fst (invoke M_element ''a'' (seed M_id ''x'')) = Inl SequenceOrderError
   \<and> fst (invoke M_element ''b'' (attempt_all [(M_element, ''a'')] (seed M_id ''x''))) = Inr ()
   \<and> stringify (attempt_all [(M_element, ''a''), (M_element, ''b'')] (seed M_id ''x'')) = ''#xb''
   \<and> fst (invoke M_element ''c'' (attempt_all [(M_element, ''a''), (M_element, ''b'')] (seed M_id ''x'')))
       = Inr ()
   \<and> stringify (attempt_all [(M_element, ''a''), (M_element, ''b''), (M_element, ''c'')] (seed M_id ''x''))
       = ''#xbc''"
  by (simp add: run_simps stringify_def)

text \<open>
  C4. A call that repeats a capped kind the builder already carries and is out of order
  as well should throw the duplicate error, not the ordering error. It does not at
  \<open>b = id('x')\<close> once the caller has caught the ordering error of \<open>b.element('a')\<close>:
  \<open>b.element('b')\<close> and \<open>b.class('c')\<close> return, the builder reads \<open>#xb.c\<close>, and
  \<open>b.element('d')\<close>, a second element after a class, passes the occurrence test
  (\<open>elementCount\<close> is still 0) and throws the ordering error.
\<close>

theorem repeated_element_out_of_order_after_caught_error:
  "fst (invoke M_element ''a'' (seed M_id ''x'')) = Inl SequenceOrderError
   \<and> fst (invoke M_element ''b'' (attempt_all [(M_element, ''a'')] (seed M_id ''x''))) = Inr ()
   \<and> fst (invoke M_class ''c'' (attempt_all [(M_element, ''a''), (M_element, ''b'')] (seed M_id ''x'')))
       = Inr ()
   \<and> stringify (attempt_all [(M_element, ''a''), (M_element, ''b''), (M_class, ''c'')] (seed M_id ''x''))
       = ''#xb.c''
   \<and> elementCount (attempt_all [(M_element, ''a''), (M_element, ''b''), (M_class, ''c'')] (seed M_id ''x''))
       = 0
   \<and> fst (invoke M_element ''d''
          (attempt_all [(M_element, ''a''), (M_element, ''b''), (M_class, ''c'')] (seed M_id ''x'')))
       = Inl SequenceOrderError
   \<and> fst (invoke M_element ''d''
          (attempt_all [(M_element, ''a''), (M_element, ''b''), (M_class, ''c'')] (seed M_id ''x'')))
       \<noteq> Inl DuplicateFragmentError"
  by (simp add: run_simps stringify_def error_names_differ [symmetric])


section \<open>The state after a throw\<close>

text \<open>
  C5. A call that throws should leave the builder as it found it. At \<open>b = class('c')\<close>,
  \<open>b.element('a')\<close> throws the ordering error and leaves \<open>currentSelector\<close> at \<open>'element'\<close>
  and \<open>prevSelector\<close> at \<open>'class'\<close>; \<open>b.id('x')\<close>, which a fresh \<open>class('c')\<close> refuses, then
  returns and gives \<open>.c#x\<close>.
\<close>

theorem failed_element_call_changes_state:
  "seed M_class ''c''
     = \<lparr>selectors = ''.c'', currentSelector = ''class'', prevSelector = None,
         elementCount = 0, idCount = 0, pseudoElemCount = 0\<rparr>
   \<and> invoke M_element ''a'' (seed M_class ''c'')
     = (Inl SequenceOrderError,
        \<lparr>selectors = ''.c'', currentSelector = ''element'', prevSelector = Some ''class'',
         elementCount = 0, idCount = 0, pseudoElemCount = 0\<rparr>)
   \<and> snd (invoke M_element ''a'' (seed M_class ''c'')) \<noteq> seed M_class ''c''
   \<and> fst (invoke M_id ''x'' (seed M_class ''c'')) = Inl SequenceOrderError
   \<and> invoke M_id ''x'' (snd (invoke M_element ''a'' (seed M_class ''c'')))
       = (Inr (), \<lparr>selectors = ''.c#x'', currentSelector = ''id'', prevSelector = Some ''element'',
            elementCount = 0, idCount = 1, pseudoElemCount = 0\<rparr>)"
  by (simp add: run_simps)


section \<open>The two messages\<close>

text \<open>
  C6, as amended. Every duplicate error thrown by \<open>element\<close>, \<open>id\<close> or \<open>pseudoElement\<close>
  carries exactly the message "Element, id and pseudo-element should not occur more then
  one time inside the selector": spelled "then", and with no full stop at the end.
\<close>

theorem duplicate_error_message:
  assumes "duplicate m b"
  shows "fst (invoke m v b)
     = Inl (Error ''Element, id and pseudo-element should not occur more then one time inside the selector'')"
  using invoke_duplicate [OF assms, of v] by (simp add: DuplicateFragmentError_def)

theorem duplicate_error_message_witness:
  "duplicate M_pseudoElement (seed M_pseudoElement ''after'')
   \<and> fst (invoke M_pseudoElement ''before'' (seed M_pseudoElement ''after''))
     = Inl (Error ''Element, id and pseudo-element should not occur more then one time inside the selector'')"
proof -
  have d: "duplicate M_pseudoElement (seed M_pseudoElement ''after'')"
    by (simp add: duplicate_def facade_defs)
  from duplicate_error_message [OF d, of "''before''"] d show ?thesis by blast
qed

text \<open>
  C6 as first stated fails at \<open>element('a').element('b')\<close>: the error thrown does not
  carry the message with "than" and a final full stop.
\<close>

theorem duplicate_error_message_counterexample:
  "duplicate M_element (seed M_element ''a'')
   \<and> fst (invoke M_element ''b'' (seed M_element ''a'')) = Inl DuplicateFragmentError
   \<and> DuplicateFragmentError
     \<noteq> Error ''Element, id and pseudo-element should not occur more than one time inside the selector.''"
  by (simp add: duplicate_def facade_defs element_def DuplicateFragmentError_def)

text \<open>
  C7, as amended. Every ordering error thrown by an out-of-order append carries exactly
  the message "Selector parts should be arranged in the following order: element, id,
  class, attribute, pseudo-class, pseudo-element", with no full stop at the end.
\<close>

theorem order_error_message:
  assumes "out_of_order m b" and "\<not> duplicate m b"
  shows "fst (invoke m v b)
     = Inl (Error ''Selector parts should be arranged in the following order: element, id, class, attribute, pseudo-class, pseudo-element'')"
  using invoke_out_of_order [OF assms, of v] by (simp add: SequenceOrderError_def)

theorem order_error_message_witness:
  "out_of_order M_attr (seed M_pseudoClass ''hover'')
   \<and> \<not> duplicate M_attr (seed M_pseudoClass ''hover'')
   \<and> fst (invoke M_attr ''href'' (seed M_pseudoClass ''hover''))
     = Inl (Error ''Selector parts should be arranged in the following order: element, id, class, attribute, pseudo-class, pseudo-element'')"
proof -
  have o: "out_of_order M_attr (seed M_pseudoClass ''hover'')"
    by (simp add: out_of_order_def facade_defs indexOf_def ORDER_def)
  have d: "\<not> duplicate M_attr (seed M_pseudoClass ''hover'')"
    by (simp add: duplicate_def)
  from order_error_message [OF o d, of "''href''"] o d show ?thesis by blast
qed

text \<open>
  C7 as first stated fails at \<open>class('c').element('a')\<close>: the error thrown does not carry
  the message that ends in a full stop.
\<close>

theorem order_error_message_counterexample:
  "out_of_order M_element (seed M_class ''c'')
   \<and> fst (invoke M_element ''a'' (seed M_class ''c'')) = Inl SequenceOrderError
   \<and> SequenceOrderError
     \<noteq> Error ''Selector parts should be arranged in the following order: element, id, class, attribute, pseudo-class, pseudo-element.''"
  by (simp add: out_of_order_def facade_defs element_def Let_def indexOf_def ORDER_def
      SequenceOrderError_def)


section \<open>Combined selectors\<close>

text \<open>
  C8. For any two operands and any token string, \<open>combine(left, token, right)\<close> yields a
  value whose stored string, and so its \<open>stringify()\<close>, is
  \<open>left.stringify() + " " + token + " " + right.stringify()\<close>; no token is refused. Nested to
  any depth, the result reads as the operands in order with one space on each side of
  every token.
\<close>

theorem combine_renders:
  "string_field (cssSelectorBuilder_combine l t r)
     = selector_stringify l @ '' '' @ t @ '' '' @ selector_stringify r
   \<and> selector_stringify (Combined (cssSelectorBuilder_combine l t r))
     = selector_stringify l @ '' '' @ t @ '' '' @ selector_stringify r
   \<and> selector_stringify (build e) = rendered e"
  by (simp add: build_rendered cssSelectorBuilder_combine_def new_Combine_def Combine_stringify_def)


section \<open>Entry points\<close>

text \<open>
  C9. Each entry point of the facade returns a builder holding exactly its seed: the text
  is the seed's rendering and is what \<open>stringify()\<close> returns, the last kind is the seed's
  kind, and the counter of a capped seed is 1 while every other counter is 0.
\<close>

theorem entry_points_seeded:
  "stringify (cssSelectorBuilder_element v) = canonical_rendering M_element v
   \<and> currentSelector (cssSelectorBuilder_element v) = ''element''
   \<and> elementCount (cssSelectorBuilder_element v) = 1
   \<and> idCount (cssSelectorBuilder_element v) = 0
   \<and> pseudoElemCount (cssSelectorBuilder_element v) = 0
   \<and> stringify (cssSelectorBuilder_id v) = canonical_rendering M_id v
   \<and> currentSelector (cssSelectorBuilder_id v) = ''id''
   \<and> elementCount (cssSelectorBuilder_id v) = 0
   \<and> idCount (cssSelectorBuilder_id v) = 1
   \<and> pseudoElemCount (cssSelectorBuilder_id v) = 0
   \<and> stringify (cssSelectorBuilder_class v) = canonical_rendering M_class v
   \<and> currentSelector (cssSelectorBuilder_class v) = ''class''
   \<and> elementCount (cssSelectorBuilder_class v) = 0
   \<and> idCount (cssSelectorBuilder_class v) = 0
   \<and> pseudoElemCount (cssSelectorBuilder_class v) = 0
   \<and> stringify (cssSelectorBuilder_attr v) = canonical_rendering M_attr v
   \<and> currentSelector (cssSelectorBuilder_attr v) = ''attribute''
   \<and> elementCount (cssSelectorBuilder_attr v) = 0
   \<and> idCount (cssSelectorBuilder_attr v) = 0
   \<and> pseudoElemCount (cssSelectorBuilder_attr v) = 0
   \<and> stringify (cssSelectorBuilder_pseudoClass v) = canonical_rendering M_pseudoClass v
   \<and> currentSelector (cssSelectorBuilder_pseudoClass v) = ''pseudoClass''
   \<and> elementCount (cssSelectorBuilder_pseudoClass v) = 0
   \<and> idCount (cssSelectorBuilder_pseudoClass v) = 0
   \<and> pseudoElemCount (cssSelectorBuilder_pseudoClass v) = 0
   \<and> stringify (cssSelectorBuilder_pseudoElement v) = canonical_rendering M_pseudoElement v
   \<and> currentSelector (cssSelectorBuilder_pseudoElement v) = ''pseudoElement''
   \<and> elementCount (cssSelectorBuilder_pseudoElement v) = 0
   \<and> idCount (cssSelectorBuilder_pseudoElement v) = 0
   \<and> pseudoElemCount (cssSelectorBuilder_pseudoElement v) = 1"
  by (simp add: facade_defs stringify_def)


end
